theory Spec2Isabelle
  imports Main
begin

section \<open>JavaScript values\<close>

text \<open>
  The values the request builder of \<^verbatim>\<open>request.js\<close> receives and stores. Numbers are the
  integer-valued ones (the safe integers) and \<open>NaN\<close>; a string is the list of its code
  units, each below 256; a function value carries an identity and its source text; a
  symbol carries an identity; an array is the list of its elements; a plain object is
  the list of its own enumerable properties, in enumeration order, with distinct keys.
  Values are trees: nothing shares or mutates them behind the builder's back.
\<close>

datatype jsval =
    JUndefined
  | JNull
  | JBool bool
  | JNum int
  | JNaN
  | JStr string
  | JSymbol nat
  | JFun nat string
  | JArr "jsval list"
  | JObj "(string \<times> jsval) list"

text \<open>The errors the code throws: \<^verbatim>\<open>TypeError\<close> of the platform and of \<^verbatim>\<open>requestFactory\<close>,
  the two error classes of the module, and a failure raised by a collaborator (a
  middleware or the transport) with the value it carries.\<close>

datatype error =
    TypeError string
  | InvalidRequestHeader jsval jsval
  | InvalidBody jsval
  | Raised jsval

subsection \<open>Platform operations\<close>

text \<open>Truthiness (\<^verbatim>\<open>ToBoolean\<close>), as \<^verbatim>\<open>a || b\<close> and \<^verbatim>\<open>if (x)\<close> test it.\<close>

fun truthy :: "jsval \<Rightarrow> bool" where
  "truthy JUndefined = False"
| "truthy JNull = False"
| "truthy (JBool b) = b"
| "truthy (JNum n) = (n \<noteq> 0)"
| "truthy JNaN = False"
| "truthy (JStr s) = (s \<noteq> [])"
| "truthy (JSymbol _) = True"
| "truthy (JFun _ _) = True"
| "truthy (JArr _) = True"
| "truthy (JObj _) = True"

text \<open>\<^verbatim>\<open>a || b\<close>: the left operand when it is truthy, else the right one.\<close>

definition js_or :: "jsval \<Rightarrow> jsval \<Rightarrow> jsval" where
  "js_or a b = (if truthy a then a else b)"

text \<open>The \<^verbatim>\<open>typeof\<close> operator.\<close>

fun typeof :: "jsval \<Rightarrow> string" where
  "typeof JUndefined = ''undefined''"
| "typeof JNull = ''object''"
| "typeof (JBool _) = ''boolean''"
| "typeof (JNum _) = ''number''"
| "typeof JNaN = ''number''"
| "typeof (JStr _) = ''string''"
| "typeof (JSymbol _) = ''symbol''"
| "typeof (JFun _ _) = ''function''"
| "typeof (JArr _) = ''object''"
| "typeof (JObj _) = ''object''"

text \<open>\<^verbatim>\<open>Array.isArray\<close>.\<close>

fun Array_isArray :: "jsval \<Rightarrow> bool" where
  "Array_isArray (JArr _) = True"
| "Array_isArray _ = False"

text \<open>Decimal numerals, as \<^verbatim>\<open>Number.prototype.toString\<close> writes an integer.\<close>

definition digit_char :: "nat \<Rightarrow> char" where
  "digit_char d = char_of (48 + d)"

fun digits :: "nat \<Rightarrow> string" where
  "digits n = (if n < 10 then [digit_char n] else digits (n div 10) @ [digit_char (n mod 10)])"

declare digits.simps [simp del]

definition Number_toString :: "int \<Rightarrow> string" where
  "Number_toString n = (if n < 0 then CHR ''-'' # digits (nat (- n)) else digits (nat n))"

text \<open>Joining strings with a separator (\<^verbatim>\<open>Array.prototype.join\<close> on strings).\<close>

fun join_with :: "string \<Rightarrow> string list \<Rightarrow> string" where
  "join_with sep [] = []"
| "join_with sep [s] = s"
| "join_with sep (s # t # ts) = s @ sep @ join_with sep (t # ts)"

text \<open>\<^verbatim>\<open>value.toString()\<close> on a number value (\<^verbatim>\<open>Number.prototype.toString\<close>); the classifier
  calls it on numbers only.\<close>

fun number_toString :: "jsval \<Rightarrow> string" where
  "number_toString (JNum n) = Number_toString n"
| "number_toString JNaN = ''NaN''"
| "number_toString _ = []"

text \<open>
  What a function value does when the platform calls it, without arguments, as the
  \<^verbatim>\<open>toString\<close> or \<^verbatim>\<open>valueOf\<close> method of an object: it returns a value or throws one. It is
  given by the identity of the function and the object it is called on.
\<close>

datatype returned = Returns jsval | Throws jsval

type_synonym methods = "nat \<Rightarrow> jsval \<Rightarrow> returned"

fun is_object :: "jsval \<Rightarrow> bool" where
  "is_object (JArr _) = True"
| "is_object (JObj _) = True"
| "is_object (JFun _ _) = True"
| "is_object _ = False"

text \<open>\<^verbatim>\<open>ToString\<close> of a value that is not an object; a symbol has no conversion.\<close>

fun ToString_primitive :: "jsval \<Rightarrow> error + string" where
  "ToString_primitive JUndefined = Inr ''undefined''"
| "ToString_primitive JNull = Inr ''null''"
| "ToString_primitive (JBool b) = Inr (if b then ''true'' else ''false'')"
| "ToString_primitive (JNum n) = Inr (Number_toString n)"
| "ToString_primitive JNaN = Inr ''NaN''"
| "ToString_primitive (JStr s) = Inr s"
| "ToString_primitive (JSymbol _) = Inl (TypeError ''Cannot convert a Symbol value to a string'')"
| "ToString_primitive _ = Inl (TypeError ''Cannot convert object to primitive value'')"

text \<open>
  One step of \<^verbatim>\<open>OrdinaryToPrimitive\<close>: the property value \<open>f\<close> is tried as a method of
  \<open>obj\<close>. \<open>None\<close> means that the next method is to be tried: \<open>f\<close> is not a function, or
  it returns an object.
\<close>

definition try_method :: "methods \<Rightarrow> jsval \<Rightarrow> jsval \<Rightarrow> (error + jsval) option" where
  "try_method m f obj =
     (case f of
        JFun i _ \<Rightarrow>
          (case m i obj of
             Throws v \<Rightarrow> Some (Inl (Raised v))
           | Returns r \<Rightarrow> if is_object r then None else Some (Inr r))
      | _ \<Rightarrow> None)"

text \<open>
  \<^verbatim>\<open>OrdinaryToPrimitive\<close> of a plain object, with the hint \<^verbatim>\<open>string\<close>: first \<^verbatim>\<open>toString\<close>, then
  \<^verbatim>\<open>valueOf\<close>. An object without an own \<^verbatim>\<open>toString\<close> inherits the one that gives
  \<^verbatim>\<open>[object Object]\<close>; the inherited \<^verbatim>\<open>valueOf\<close> returns the object itself. When neither
  gives a primitive value the platform throws a \<^verbatim>\<open>TypeError\<close>.
\<close>

definition OrdinaryToPrimitive :: "methods \<Rightarrow> (string \<times> jsval) list \<Rightarrow> error + jsval" where
  "OrdinaryToPrimitive m ps =
     (case (case map_of ps ''toString'' of
              None \<Rightarrow> Some (Inr (JStr ''[object Object]''))
            | Some f \<Rightarrow> try_method m f (JObj ps)) of
        Some r \<Rightarrow> r
      | None \<Rightarrow>
          (case (case map_of ps ''valueOf'' of
                   None \<Rightarrow> None
                 | Some f \<Rightarrow> try_method m f (JObj ps)) of
             Some r \<Rightarrow> r
           | None \<Rightarrow> Inl (TypeError ''Cannot convert object to primitive value'')))"

text \<open>
  \<^verbatim>\<open>ToString\<close>, the conversion a template literal applies to an interpolated value; \<open>Inl\<close>
  is what it throws. An array is its elements joined by commas, \<^verbatim>\<open>undefined\<close> and \<^verbatim>\<open>null\<close>
  elements being empty; a plain object is converted to a primitive value first; a
  function is its source text.
\<close>

fun ToString :: "methods \<Rightarrow> jsval \<Rightarrow> error + string"
  and ToString_elements :: "methods \<Rightarrow> jsval list \<Rightarrow> error + string list" where
  "ToString m JUndefined = ToString_primitive JUndefined"
| "ToString m JNull = ToString_primitive JNull"
| "ToString m (JBool b) = ToString_primitive (JBool b)"
| "ToString m (JNum n) = ToString_primitive (JNum n)"
| "ToString m JNaN = ToString_primitive JNaN"
| "ToString m (JStr s) = ToString_primitive (JStr s)"
| "ToString m (JSymbol i) = ToString_primitive (JSymbol i)"
| "ToString m (JFun _ src) = Inr src"
| "ToString m (JArr xs) =
     (case ToString_elements m xs of Inl e \<Rightarrow> Inl e | Inr ss \<Rightarrow> Inr (join_with '','' ss))"
| "ToString m (JObj ps) =
     (case OrdinaryToPrimitive m ps of Inl e \<Rightarrow> Inl e | Inr p \<Rightarrow> ToString_primitive p)"
| "ToString_elements m [] = Inr []"
| "ToString_elements m (x # xs) =
     (case (if x = JUndefined \<or> x = JNull then Inr [] else ToString m x) of
        Inl e \<Rightarrow> Inl e
      | Inr s \<Rightarrow> (case ToString_elements m xs of Inl e \<Rightarrow> Inl e | Inr ss \<Rightarrow> Inr (s # ss)))"

text \<open>The errors a conversion to a string throws: a \<^verbatim>\<open>TypeError\<close> of the platform, or the
  value a conversion method throws.\<close>

definition conversion_error :: "error \<Rightarrow> bool" where
  "conversion_error e = (case e of TypeError _ \<Rightarrow> True | Raised _ \<Rightarrow> True | _ \<Rightarrow> False)"

text \<open>\<^verbatim>\<open>String.prototype.startsWith\<close> with one argument.\<close>

fun startsWith :: "string \<Rightarrow> string \<Rightarrow> bool" where
  "startsWith s [] = True"
| "startsWith [] (p # ps) = False"
| "startsWith (c # cs) (p # ps) = (c = p \<and> startsWith cs ps)"

text \<open>
  \<^verbatim>\<open>JSON.stringify\<close> with one argument. \<open>QuoteJSONString\<close> escapes the quote, the
  backslash and the control characters; \<open>SerializeJSONProperty\<close> gives \<open>None\<close>
  where the platform gives \<^verbatim>\<open>undefined\<close> (for \<^verbatim>\<open>undefined\<close>, a function, a symbol); such
  a value is \<^verbatim>\<open>null\<close> inside an array and is left out of an object. An object is
  serialised from its own properties.
\<close>

definition hex_char :: "nat \<Rightarrow> char" where
  "hex_char d = (if d < 10 then char_of (48 + d) else char_of (87 + d))"

definition quote_char :: "char \<Rightarrow> string" where
  "quote_char c =
     (if c = CHR 0x08 then [CHR 0x5C, CHR ''b'']
      else if c = CHR 0x09 then [CHR 0x5C, CHR ''t'']
      else if c = CHR 0x0A then [CHR 0x5C, CHR ''n'']
      else if c = CHR 0x0C then [CHR 0x5C, CHR ''f'']
      else if c = CHR 0x0D then [CHR 0x5C, CHR ''r'']
      else if c = CHR 0x22 then [CHR 0x5C, CHR 0x22]
      else if c = CHR 0x5C then [CHR 0x5C, CHR 0x5C]
      else if (of_char c :: nat) < 32
        then [CHR 0x5C, CHR ''u'', CHR ''0'', CHR ''0'', hex_char (of_char c div 16), hex_char (of_char c mod 16)]
      else [c])"

definition QuoteJSONString :: "string \<Rightarrow> string" where
  "QuoteJSONString s = [CHR 0x22] @ concat (map quote_char s) @ [CHR 0x22]"

fun SerializeJSONProperty :: "jsval \<Rightarrow> string option"
  and SerializeJSONArray :: "jsval list \<Rightarrow> string list"
  and SerializeJSONObject :: "(string \<times> jsval) list \<Rightarrow> string list" where
  "SerializeJSONProperty JUndefined = None"
| "SerializeJSONProperty JNull = Some ''null''"
| "SerializeJSONProperty (JBool b) = Some (if b then ''true'' else ''false'')"
| "SerializeJSONProperty (JNum n) = Some (Number_toString n)"
| "SerializeJSONProperty JNaN = Some ''null''"
| "SerializeJSONProperty (JStr s) = Some (QuoteJSONString s)"
| "SerializeJSONProperty (JSymbol _) = None"
| "SerializeJSONProperty (JFun _ _) = None"
| "SerializeJSONProperty (JArr xs) = Some (''['' @ join_with '','' (SerializeJSONArray xs) @ '']'')"
| "SerializeJSONProperty (JObj ps) = Some (''{'' @ join_with '','' (SerializeJSONObject ps) @ ''}'')"
| "SerializeJSONArray [] = []"
| "SerializeJSONArray (x # xs) =
     (case SerializeJSONProperty x of None \<Rightarrow> ''null'' | Some s \<Rightarrow> s) # SerializeJSONArray xs"
| "SerializeJSONObject [] = []"
| "SerializeJSONObject (kv # ps) =
     (case SerializeJSONProperty (snd kv) of
        None \<Rightarrow> SerializeJSONObject ps
      | Some s \<Rightarrow> (QuoteJSONString (fst kv) @ '':'' @ s) # SerializeJSONObject ps)"

definition JSON_stringify :: "jsval \<Rightarrow> jsval" where
  "JSON_stringify v = (case SerializeJSONProperty v of None \<Rightarrow> JUndefined | Some s \<Rightarrow> JStr s)"

section \<open>The type classifier\<close>

text \<open>
  \<^verbatim>\<open>typeOf(value)\<close> computes \<^verbatim>\<open>actualType\<close> and returns an object of predicates over it.
  Here \<open>typeOf\<close> returns \<^verbatim>\<open>actualType\<close> and each predicate takes it, so that
  \<^verbatim>\<open>typeOf(x).isString()\<close> reads \<open>isString (typeOf x)\<close>.
\<close>

definition typeOf :: "jsval \<Rightarrow> string" where
  "typeOf val =
     (if val = JNull then ''null''
      else if Array_isArray val then ''array''
      else if typeof val = ''number'' \<and> number_toString val = ''NaN'' then ''NaN''
      else typeof val)"

definition isNaN :: "string \<Rightarrow> bool" where
  "isNaN actualType = (actualType = ''NaN'')"

definition isArray :: "string \<Rightarrow> bool" where
  "isArray actualType = (actualType = ''array'')"

definition isSymbol :: "string \<Rightarrow> bool" where
  "isSymbol actualType = (actualType = ''symbol'')"

definition isString :: "string \<Rightarrow> bool" where
  "isString actualType = (actualType = ''string'')"

definition isObject :: "string \<Rightarrow> bool" where
  "isObject actualType = (actualType = ''object'')"

definition isNumber :: "string \<Rightarrow> bool" where
  "isNumber actualType = (actualType = ''number'')"

definition isBoolean :: "string \<Rightarrow> bool" where
  "isBoolean actualType = (actualType = ''boolean'')"

definition isNotString :: "string \<Rightarrow> bool" where
  "isNotString actualType = (actualType \<noteq> ''string'')"

definition isFunction :: "string \<Rightarrow> bool" where
  "isFunction actualType = (actualType = ''function'')"

definition isUndefinedOrNull :: "string \<Rightarrow> bool" where
  "isUndefinedOrNull actualType = (actualType = ''null'' \<or> actualType = ''undefined'')"

section \<open>The request object\<close>

text \<open>The characters of a string value; read only where the value has been classified
  as a string.\<close>

fun str :: "jsval \<Rightarrow> string" where
  "str (JStr s) = s"
| "str _ = []"

text \<open>
  The object a request is. \<open>priv_path\<close>, \<open>priv_headers\<close>, \<open>priv_body\<close> and
  \<open>priv_middlewares\<close> are the fields \<^verbatim>\<open>__path\<close>, \<^verbatim>\<open>__headers\<close>, \<^verbatim>\<open>__body\<close> and
  \<^verbatim>\<open>__middlewares\<close>; \<open>mw_body\<close> and \<open>mw_header\<close> are the slots \<^verbatim>\<open>body\<close> and \<^verbatim>\<open>header\<close>
  of \<^verbatim>\<open>__middlewares\<close>. A header mapping is a map from keys to values; a key that is
  absent reads as \<^verbatim>\<open>undefined\<close>.
\<close>

record middlewares =
  mw_body :: jsval
  mw_header :: jsval

record request =
  baseURL :: string
  apiVersion :: jsval
  priv_path :: jsval
  priv_headers :: "string \<rightharpoonup> jsval"
  priv_body :: jsval
  priv_middlewares :: middlewares

text \<open>Objects live in a store, addressed by reference; a method receives \<^verbatim>\<open>this\<close> as
  an address and returns what it returns or throws, with the store it leaves.\<close>

type_synonym heap = "nat \<Rightarrow> request"

definition HTTP_METHOD_GET :: jsval where "HTTP_METHOD_GET = JStr ''GET''"
definition HTTP_METHOD_PUT :: jsval where "HTTP_METHOD_PUT = JStr ''PUT''"
definition HTTP_METHOD_POST :: jsval where "HTTP_METHOD_POST = JStr ''POST''"
definition HTTP_METHOD_DELETE :: jsval where "HTTP_METHOD_DELETE = JStr ''DELETE''"

text \<open>The function \<^verbatim>\<open>requestFactory\<close> returns, with the \<^verbatim>\<open>baseURL\<close> and \<^verbatim>\<open>apiVersion\<close> of
  its closure: the object literal it evaluates. The methods of the object are the
  functions below; those that read the closure's \<^verbatim>\<open>baseURL\<close> take it as the argument
  \<open>base\<close>.\<close>

definition new_request :: "string \<Rightarrow> jsval \<Rightarrow> jsval \<Rightarrow> request" where
  "new_request base version URI =
     \<lparr>baseURL = base, apiVersion = version, priv_path = URI,
      priv_headers = Map.empty, priv_body = JNull,
      priv_middlewares = \<lparr>mw_body = JNull, mw_header = JNull\<rparr>\<rparr>"

definition requestFactory :: "jsval \<Rightarrow> jsval \<Rightarrow> error + (jsval \<Rightarrow> request)" where
  "requestFactory base version =
     (if typeof base \<noteq> ''string'' then Inl (TypeError ''baseURL must be of type string'')
      else Inr (new_request (str base) version))"

subsection \<open>Mutators\<close>

text \<open>
  What \<^verbatim>\<open>throw new InvalidRequestHeader(key, value)\<close> throws. The constructor builds its
  message with the template literal \<^verbatim>\<open>`... Found ${key}/${value}`\<close>, which converts the key,
  then the value, to a string: when a conversion throws, that is what is thrown, and no
  \<^verbatim>\<open>InvalidRequestHeader\<close> comes to exist. The error \<open>InvalidRequestHeader key val\<close> stands for
  the object with the message built from \<open>key\<close> and \<open>val\<close>. (\<^verbatim>\<open>InvalidBody\<close> interpolates a
  body that is \<^verbatim>\<open>undefined\<close> or \<^verbatim>\<open>null\<close> where it is built; that conversion cannot throw.)
\<close>

definition new_InvalidRequestHeader :: "methods \<Rightarrow> jsval \<Rightarrow> jsval \<Rightarrow> error" where
  "new_InvalidRequestHeader m key val =
     (case ToString m key of
        Inl e \<Rightarrow> e
      | Inr k \<Rightarrow> (case ToString m val of Inl e \<Rightarrow> e | Inr v \<Rightarrow> InvalidRequestHeader key val))"

definition withHeader ::
  "methods \<Rightarrow> jsval \<Rightarrow> jsval \<Rightarrow> nat \<Rightarrow> heap \<Rightarrow> (error + nat) \<times> heap" where
  "withHeader m key val this h =
     (if isNotString (typeOf key) \<or> isNotString (typeOf val)
      then (Inl (new_InvalidRequestHeader m key val), h)
      else (Inr this,
            h(this := (h this)\<lparr>priv_headers := (priv_headers (h this))(str key \<mapsto> val)\<rparr>)))"

definition withAuthorization :: "methods \<Rightarrow> jsval \<Rightarrow> nat \<Rightarrow> heap \<Rightarrow> (error + nat) \<times> heap" where
  "withAuthorization m token this h = withHeader m (JStr ''Authorization'') token this h"

text \<open>The template literal \<^verbatim>\<open>`Bearer ${token}`\<close> converts the token with \<open>ToString\<close>; what
  the conversion throws, the method throws.\<close>

definition withBearerAuthorization ::
  "methods \<Rightarrow> jsval \<Rightarrow> nat \<Rightarrow> heap \<Rightarrow> (error + nat) \<times> heap" where
  "withBearerAuthorization m token this h =
     (case ToString m token of
        Inl e \<Rightarrow> (Inl e, h)
      | Inr s \<Rightarrow> (let bearerToken = JStr (''Bearer '' @ s)
                 in withAuthorization m bearerToken this h))"

definition withBody :: "jsval \<Rightarrow> nat \<Rightarrow> heap \<Rightarrow> (error + nat) \<times> heap" where
  "withBody b this h =
     (if isUndefinedOrNull (typeOf b) then (Inl (InvalidBody b), h)
      else (Inr this, h(this := (h this)\<lparr>priv_body := b\<rparr>)))"

definition withContentType :: "methods \<Rightarrow> jsval \<Rightarrow> nat \<Rightarrow> heap \<Rightarrow> (error + nat) \<times> heap" where
  "withContentType m type this h = withHeader m (JStr ''Content-Type'') type this h"

text \<open>
  Reading a property off a value: an own property of a plain object, \<^verbatim>\<open>undefined\<close>
  otherwise (none of the platform's prototypes has a property \<^verbatim>\<open>header\<close> or \<^verbatim>\<open>body\<close>,
  the two names read here).
\<close>

fun get_property :: "jsval \<Rightarrow> string \<Rightarrow> jsval" where
  "get_property (JObj ps) k = (case map_of ps k of None \<Rightarrow> JUndefined | Some v \<Rightarrow> v)"
| "get_property _ k = JUndefined"

text \<open>The parameter pattern \<^verbatim>\<open>{ header, body}\<close>: destructuring \<^verbatim>\<open>undefined\<close> or \<^verbatim>\<open>null\<close>
  throws a \<^verbatim>\<open>TypeError\<close>; any other value is read for the two properties.\<close>

definition destructure_header_body :: "jsval \<Rightarrow> error + jsval \<times> jsval" where
  "destructure_header_body arg =
     (if arg = JUndefined \<or> arg = JNull
      then Inl (TypeError ''Cannot destructure property of undefined or null'')
      else Inr (get_property arg ''header'', get_property arg ''body''))"

definition withMiddleware :: "jsval \<Rightarrow> nat \<Rightarrow> heap \<Rightarrow> (error + nat) \<times> heap" where
  "withMiddleware arg this h =
     (case destructure_header_body arg of
        Inl e \<Rightarrow> (Inl e, h)
      | Inr (hd_fn, bd_fn) \<Rightarrow>
          (let h1 = (if isFunction (typeOf hd_fn)
                     then h(this := (h this)\<lparr>priv_middlewares :=
                            (priv_middlewares (h this))\<lparr>mw_header := hd_fn\<rparr>\<rparr>)
                     else h);
               h2 = (if isFunction (typeOf bd_fn)
                     then h1(this := (h1 this)\<lparr>priv_middlewares :=
                            (priv_middlewares (h1 this))\<lparr>mw_body := bd_fn\<rparr>\<rparr>)
                     else h1)
           in (Inr this, h2)))"

subsection \<open>Parameter assembly\<close>

text \<open>The record \<^verbatim>\<open>_parameters\<close> returns, \<open>http_method\<close> being its key \<^verbatim>\<open>method\<close>;
  \<open>body = None\<close> is a record without the key \<^verbatim>\<open>body\<close>.\<close>

record requestPayload =
  http_method :: jsval
  headers :: "string \<rightharpoonup> jsval"
  body :: "jsval option"

definition parameters :: "jsval \<Rightarrow> nat \<Rightarrow> heap \<Rightarrow> requestPayload" where
  "parameters meth this h =
     (let contentType = (case priv_headers (h this) ''Content-Type'' of
                           None \<Rightarrow> JUndefined | Some v \<Rightarrow> v);
          isBodyIncluded = (\<not> isUndefinedOrNull (typeOf (priv_body (h this)))
                            \<and> isString (typeOf contentType));
          requestPayload = \<lparr>http_method = meth, headers = priv_headers (h this), body = None\<rparr>
      in if isBodyIncluded
         then requestPayload\<lparr>body :=
                Some (if startsWith (str contentType) ''application/json''
                      then JSON_stringify (priv_body (h this))
                      else priv_body (h this))\<rparr>
         else requestPayload)"

subsection \<open>Collaborators, middleware execution and dispatch\<close>

text \<open>
  How a promise ends: fulfilled with a value, rejected with an error, or never settled.
\<close>

datatype settled = Fulfilled jsval | Rejected error | Pending

text \<open>
  The second argument the transport receives: a parameter record, or the function
  \<^verbatim>\<open>_parameters\<close> of the instance itself, not applied.
\<close>

datatype fetch_init = Parameters_record requestPayload | Parameters_function

text \<open>What a dispatch does to the outside, in order: a call of the header middleware with
  the header mapping it is given, a call of the body middleware with the body it is
  given, a call of the transport with its two arguments.\<close>

datatype event =
    Header_middleware nat "string \<rightharpoonup> jsval"
  | Body_middleware nat jsval
  | Fetch string fetch_init

text \<open>
  The collaborators: the global \<^verbatim>\<open>fetch\<close>, and what a function value does when it is
  called as a header or as a body middleware: how the promise it returns ends (a
  function that throws counts as rejecting), and the contents of its argument when it
  has run, since it may mutate the object it is given in place; and what it does when
  called as a conversion method.
\<close>

record world =
  fetch :: "string \<Rightarrow> fetch_init \<Rightarrow> settled"
  header_fn :: "nat \<Rightarrow> (string \<rightharpoonup> jsval) \<Rightarrow> (string \<rightharpoonup> jsval) \<times> settled"
  body_fn :: "nat \<Rightarrow> jsval \<Rightarrow> jsval \<times> settled"
  conversion :: methods

text \<open>Only an object or an array can be mutated in place; it keeps its kind.\<close>

fun in_place :: "jsval \<Rightarrow> jsval \<Rightarrow> jsval" where
  "in_place (JObj _) (JObj ps) = JObj ps"
| "in_place (JArr _) (JArr xs) = JArr xs"
| "in_place old _ = old"

type_synonym run = "settled \<times> event list \<times> heap"

text \<open>\<^verbatim>\<open>await middlewares.header(ctx.__headers)\<close> and \<^verbatim>\<open>await middlewares.body(ctx.__body)\<close>;
  calling a value that is not a function throws a \<^verbatim>\<open>TypeError\<close>.\<close>

definition call_header :: "world \<Rightarrow> jsval \<Rightarrow> nat \<Rightarrow> heap \<Rightarrow> run" where
  "call_header w f ctx h =
     (case f of
        JFun i _ \<Rightarrow>
          (case header_fn w i (priv_headers (h ctx)) of
             (hs, s) \<Rightarrow> (s, [Header_middleware i (priv_headers (h ctx))],
                         h(ctx := (h ctx)\<lparr>priv_headers := hs\<rparr>)))
      | _ \<Rightarrow> (Rejected (TypeError ''middlewares.header is not a function''), [], h))"

definition call_body :: "world \<Rightarrow> jsval \<Rightarrow> nat \<Rightarrow> heap \<Rightarrow> run" where
  "call_body w f ctx h =
     (case f of
        JFun i _ \<Rightarrow>
          (case body_fn w i (priv_body (h ctx)) of
             (b, s) \<Rightarrow> (s, [Body_middleware i (priv_body (h ctx))],
                        h(ctx := (h ctx)\<lparr>priv_body := in_place (priv_body (h ctx)) b\<rparr>)))
      | _ \<Rightarrow> (Rejected (TypeError ''middlewares.body is not a function''), [], h))"

text \<open>Sequencing in an async function: what follows an \<^verbatim>\<open>await\<close> runs only once the
  awaited promise is fulfilled; a rejection ends the function with that rejection, and a
  promise that never settles leaves it waiting.\<close>

definition await :: "run \<Rightarrow> (heap \<Rightarrow> run) \<Rightarrow> run" where
  "await r k =
     (case r of
        (Fulfilled v, es, h) \<Rightarrow> (case k h of (s, es', h') \<Rightarrow> (s, es @ es', h'))
      | (Rejected e, es, h) \<Rightarrow> (Rejected e, es, h)
      | (Pending, es, h) \<Rightarrow> (Pending, es, h))"

text \<open>The module's \<^verbatim>\<open>async function withMiddleware(ctx, cb)\<close>.\<close>

definition withMiddleware_async :: "world \<Rightarrow> nat \<Rightarrow> (heap \<Rightarrow> run) \<Rightarrow> heap \<Rightarrow> run" where
  "withMiddleware_async w ctx cb h =
     await (if truthy (mw_header (priv_middlewares (h ctx)))
            then call_header w (mw_header (priv_middlewares (h ctx))) ctx h
            else (Fulfilled JUndefined, [], h))
       (\<lambda>h1. await (if truthy (mw_body (priv_middlewares (h1 ctx)))
                     then call_body w (mw_body (priv_middlewares (h1 ctx))) ctx h1
                     else (Fulfilled JUndefined, [], h1))
                (\<lambda>h2. cb h2))"

text \<open>\<^verbatim>\<open>_call\<close>: the continuation is \<^verbatim>\<open>() => fetch(url, this._parameters)\<close>, whose second
  argument is the method itself; \<open>meth\<close> is not read.\<close>

type_synonym dispatch = "(error + settled) \<times> event list \<times> heap"

definition call :: "world \<Rightarrow> string \<Rightarrow> jsval \<Rightarrow> jsval \<Rightarrow> nat \<Rightarrow> heap \<Rightarrow> dispatch" where
  "call w base meth path this h =
     (let url = (if isString (typeOf path) then base @ str path else base)
      in case withMiddleware_async w this
                (\<lambda>h'. (fetch w url Parameters_function, [Fetch url Parameters_function], h')) h of
           (s, es, h') \<Rightarrow> (Inr s, es, h'))"

definition post :: "world \<Rightarrow> string \<Rightarrow> jsval \<Rightarrow> nat \<Rightarrow> heap \<Rightarrow> dispatch" where
  "post w base path this h = call w base HTTP_METHOD_POST (js_or path (priv_path (h this))) this h"

definition postJSON :: "world \<Rightarrow> string \<Rightarrow> jsval \<Rightarrow> nat \<Rightarrow> heap \<Rightarrow> dispatch" where
  "postJSON w base path this h =
     (case withContentType (conversion w) (JStr ''application/json'') this h of
        (Inl e, h') \<Rightarrow> (Inl e, [], h')
      | (Inr r, h') \<Rightarrow> post w base (js_or path (priv_path (h' this))) r h')"

definition put :: "world \<Rightarrow> string \<Rightarrow> jsval \<Rightarrow> nat \<Rightarrow> heap \<Rightarrow> dispatch" where
  "put w base path this h = call w base HTTP_METHOD_PUT (js_or path (priv_path (h this))) this h"

definition putJSON :: "world \<Rightarrow> string \<Rightarrow> jsval \<Rightarrow> nat \<Rightarrow> heap \<Rightarrow> dispatch" where
  "putJSON w base path this h =
     (case withContentType (conversion w) (JStr ''application/json'') this h of
        (Inl e, h') \<Rightarrow> (Inl e, [], h')
      | (Inr r, h') \<Rightarrow> put w base (js_or path (priv_path (h' this))) r h')"

definition get :: "world \<Rightarrow> string \<Rightarrow> jsval \<Rightarrow> nat \<Rightarrow> heap \<Rightarrow> dispatch" where
  "get w base path this h = call w base HTTP_METHOD_GET (js_or path (priv_path (h this))) this h"

text \<open>\<^verbatim>\<open>delete\<close> reads \<^verbatim>\<open>this._path\<close>, a property the object does not have: \<^verbatim>\<open>undefined\<close>.\<close>

definition delete :: "world \<Rightarrow> string \<Rightarrow> jsval \<Rightarrow> nat \<Rightarrow> heap \<Rightarrow> dispatch" where
  "delete w base path this h = call w base HTTP_METHOD_DELETE (js_or path JUndefined) this h"

section \<open>An example request\<close>

text \<open>The object bound to the path \<^verbatim>\<open>/users\<close> by the factory for \<^verbatim>\<open>https://api.x.com\<close>, and a
  store that holds it.\<close>

definition example_request :: request where
  "example_request = new_request ''https://api.x.com'' (JStr ''v1'') (JStr ''/users'')"

definition example_heap :: heap where
  "example_heap = (\<lambda>_. example_request)"

text \<open>
  Collaborators for the examples. The transport answers every call. Function 1, as a
  header middleware, adds a signature header and completes; function 2, as a body
  middleware, completes; function 3 fails; any other function never completes.
\<close>

text \<open>As a conversion method, function 7 returns the string \<^verbatim>\<open>tok\<close>, function 8 throws, and
  any other function returns \<^verbatim>\<open>undefined\<close>.\<close>

definition example_methods :: methods where
  "example_methods =
     (\<lambda>i obj. if i = 7 then Returns (JStr ''tok'')
               else if i = 8 then Throws (JStr ''boom'')
               else Returns JUndefined)"

definition example_world :: world where
  "example_world =
     \<lparr>fetch = (\<lambda>url init. Fulfilled (JStr ''response'')),
      header_fn = (\<lambda>i hs. if i = 1 then (hs(''X-Signature'' \<mapsto> JStr ''abc''), Fulfilled JUndefined)
                           else if i = 3 then (hs, Rejected (Raised (JStr ''denied'')))
                           else (hs, Pending)),
      body_fn = (\<lambda>j b. if j = 2 then (b, Fulfilled JUndefined)
                        else if j = 3 then (b, Rejected (Raised (JStr ''denied'')))
                        else (b, Pending)),
      conversion = example_methods\<rparr>"

section \<open>What the classifier decides\<close>

lemma isNotString_typeOf: "isNotString (typeOf v) = (\<forall>s. v \<noteq> JStr s)"
  by (cases v) (auto simp: typeOf_def isNotString_def)

lemma isString_typeOf: "isString (typeOf v) = (\<exists>s. v = JStr s)"
  by (cases v) (auto simp: typeOf_def isString_def)

lemma isFunction_typeOf: "isFunction (typeOf v) = (\<exists>i s. v = JFun i s)"
  by (cases v) (auto simp: typeOf_def isFunction_def)

lemma isUndefinedOrNull_typeOf: "isUndefinedOrNull (typeOf v) = (v = JUndefined \<or> v = JNull)"
  by (cases v) (auto simp: typeOf_def isUndefinedOrNull_def)

section \<open>What a conversion to a string can throw\<close>

lemma ToString_primitive_error: "ToString_primitive v = Inl e \<Longrightarrow> conversion_error e"
  by (cases v) (auto simp: conversion_error_def)

lemma try_method_error: "try_method m f obj = Some (Inl e) \<Longrightarrow> conversion_error e"
  by (auto simp: try_method_def conversion_error_def split: jsval.splits returned.splits if_splits)

lemma OrdinaryToPrimitive_error: "OrdinaryToPrimitive m ps = Inl e \<Longrightarrow> conversion_error e"
  by (auto simp: OrdinaryToPrimitive_def conversion_error_def split: option.splits
      dest: try_method_error)

lemma ToString_error:
  "ToString m v = Inl e \<Longrightarrow> conversion_error e"
  "ToString_elements m vs = Inl e \<Longrightarrow> conversion_error e"
proof (induction m v and m vs arbitrary: e and e rule: ToString_ToString_elements.induct)
  case (10 m ps)
  then show ?case
    by (auto split: sum.splits dest: OrdinaryToPrimitive_error ToString_primitive_error)
next
  case (12 m x xs)
  then show ?case by (auto split: sum.splits if_splits)
qed (auto simp: conversion_error_def split: sum.splits)

lemma ToString_JStr: "ToString m (JStr s) = Inr s"
  by simp

section \<open>Mutators\<close>

text \<open>What \<^verbatim>\<open>withHeader\<close> does, for every key and value: with two strings it returns
  \<^verbatim>\<open>this\<close> and the header mapping maps the key to the value (a second call with the same key
  overwrites the first); otherwise it throws what building the error throws and leaves
  the store as it was.\<close>

lemma withHeader_strings:
  "withHeader m (JStr k) (JStr v) this h =
     (Inr this, h(this := (h this)\<lparr>priv_headers := (priv_headers (h this))(k \<mapsto> JStr v)\<rparr>))"
  by (simp add: withHeader_def isNotString_typeOf)

lemma withHeader_overwrites:
  "priv_headers (snd (withHeader m (JStr k) (JStr v') this
      (snd (withHeader m (JStr k) (JStr v) this h))) this) =
   (priv_headers (h this))(k \<mapsto> JStr v')"
  by (simp add: withHeader_strings)

lemma withHeader_not_strings:
  "(\<forall>s. key \<noteq> JStr s) \<or> (\<forall>s. val \<noteq> JStr s) \<Longrightarrow>
   withHeader m key val this h = (Inl (new_InvalidRequestHeader m key val), h)"
  by (auto simp: withHeader_def isNotString_typeOf)

lemma new_InvalidRequestHeader_cases:
  "new_InvalidRequestHeader m key val = InvalidRequestHeader key val
   \<or> conversion_error (new_InvalidRequestHeader m key val)"
  by (auto simp: new_InvalidRequestHeader_def split: sum.splits dest: ToString_error)

text \<open>
  C6. \<^verbatim>\<open>withHeader\<close> with a key or a value that is a symbol, or an object that has no
  conversion to a string: the guard finds a non-string, but building the
  \<^verbatim>\<open>InvalidRequestHeader\<close> fails in its message template, and what is thrown is the
  platform's \<^verbatim>\<open>TypeError\<close>. The store is unchanged. With a number as key the error is
  \<^verbatim>\<open>InvalidRequestHeader\<close>.
\<close>

theorem withHeader_symbol_TypeError:
  "withHeader m (JSymbol 0) (JStr ''a'') this h =
     (Inl (TypeError ''Cannot convert a Symbol value to a string''), h)
   \<and> withHeader m (JStr ''a'') (JSymbol 0) this h =
     (Inl (TypeError ''Cannot convert a Symbol value to a string''), h)
   \<and> withHeader m (JObj [(''toString'', JNum 1), (''valueOf'', JNum 2)]) (JStr ''a'') this h =
     (Inl (TypeError ''Cannot convert object to primitive value''), h)
   \<and> withHeader m (JNum 1) (JStr ''a'') this h =
     (Inl (InvalidRequestHeader (JNum 1) (JStr ''a'')), h)"
  by (simp add: withHeader_not_strings new_InvalidRequestHeader_def OrdinaryToPrimitive_def
      try_method_def)

text \<open>
  C7. \<^verbatim>\<open>withBody(body)\<close> throws \<^verbatim>\<open>InvalidBody\<close> exactly when the body is \<^verbatim>\<open>undefined\<close> or
  \<^verbatim>\<open>null\<close>, and then leaves the store as it was; any other value is stored as it is and
  \<^verbatim>\<open>this\<close> is returned.
\<close>

theorem withBody_validates:
  "((b = JUndefined \<or> b = JNull) \<longrightarrow> withBody b this h = (Inl (InvalidBody b), h))
   \<and> ((\<exists>e. fst (withBody b this h) = Inl e) = (b = JUndefined \<or> b = JNull))
   \<and> (b \<noteq> JUndefined \<and> b \<noteq> JNull \<longrightarrow>
        withBody b this h = (Inr this, h(this := (h this)\<lparr>priv_body := b\<rparr>)))"
  by (auto simp: withBody_def isUndefinedOrNull_typeOf)

theorem withBody_validates_witness:
  "withBody JUndefined 0 example_heap = (Inl (InvalidBody JUndefined), example_heap)
   \<and> withBody JNull 0 example_heap = (Inl (InvalidBody JNull), example_heap)
   \<and> withBody (JNum 0) 0 example_heap =
       (Inr 0, example_heap(0 := (example_heap 0)\<lparr>priv_body := JNum 0\<rparr>))
   \<and> withBody (JStr []) 0 example_heap =
       (Inr 0, example_heap(0 := (example_heap 0)\<lparr>priv_body := JStr []\<rparr>))
   \<and> withBody (JBool False) 0 example_heap =
       (Inr 0, example_heap(0 := (example_heap 0)\<lparr>priv_body := JBool False\<rparr>))
   \<and> withBody (JArr []) 0 example_heap =
       (Inr 0, example_heap(0 := (example_heap 0)\<lparr>priv_body := JArr []\<rparr>))
   \<and> withBody (JObj []) 0 example_heap =
       (Inr 0, example_heap(0 := (example_heap 0)\<lparr>priv_body := JObj []\<rparr>))"
  using withBody_validates [of JUndefined 0 example_heap]
    withBody_validates [of JNull 0 example_heap]
    withBody_validates [of "JNum 0" 0 example_heap]
    withBody_validates [of "JStr []" 0 example_heap]
    withBody_validates [of "JBool False" 0 example_heap]
    withBody_validates [of "JArr []" 0 example_heap]
    withBody_validates [of "JObj []" 0 example_heap]
  by simp

text \<open>
  C8. \<^verbatim>\<open>withMiddleware\<close> with a configuration object: in each slot, a property of the
  object that is a function replaces the middleware; a property that is absent or is
  not a function leaves the slot as it was. No error is thrown, \<^verbatim>\<open>this\<close> is returned and
  nothing else changes.
\<close>

theorem withMiddleware_slots:
  "withMiddleware (JObj ps) this h =
     (Inr this,
      h(this := (h this)\<lparr>priv_middlewares :=
          \<lparr>mw_body = (case map_of ps ''body'' of
                        Some (JFun i s) \<Rightarrow> JFun i s
                      | _ \<Rightarrow> mw_body (priv_middlewares (h this))),
           mw_header = (case map_of ps ''header'' of
                          Some (JFun i s) \<Rightarrow> JFun i s
                        | _ \<Rightarrow> mw_header (priv_middlewares (h this)))\<rparr>\<rparr>))"
  by (auto simp: withMiddleware_def destructure_header_body_def isFunction_typeOf Let_def fun_eq_iff
      split: option.splits jsval.splits)

theorem withMiddleware_slots_witness:
  "priv_middlewares (snd (withMiddleware (JObj [(''header'', JFun 1 ''sign'')]) 0 example_heap) 0)
     = \<lparr>mw_body = JNull, mw_header = JFun 1 ''sign''\<rparr>
   \<and> priv_middlewares (snd (withMiddleware (JObj [(''header'', JStr ''not-a-fn'')]) 0
        (snd (withMiddleware (JObj [(''header'', JFun 1 ''sign''), (''body'', JFun 2 ''log'')]) 0
           example_heap))) 0)
     = \<lparr>mw_body = JFun 2 ''log'', mw_header = JFun 1 ''sign''\<rparr>
   \<and> fst (withMiddleware (JObj [(''header'', JStr ''not-a-fn'')]) 0 example_heap) = Inr 0"
  using withMiddleware_slots [of "[(''header'', JFun 1 ''sign'')]" 0 example_heap]
    withMiddleware_slots [of "[(''header'', JFun 1 ''sign''), (''body'', JFun 2 ''log'')]" 0
      example_heap]
    withMiddleware_slots [of "[(''header'', JStr ''not-a-fn'')]" 0
      "snd (withMiddleware (JObj [(''header'', JFun 1 ''sign''), (''body'', JFun 2 ''log'')]) 0
           example_heap)"]
    withMiddleware_slots [of "[(''header'', JStr ''not-a-fn'')]" 0 example_heap]
  by (simp add: example_heap_def example_request_def new_request_def)

text \<open>
  C10. \<^verbatim>\<open>withMiddleware\<close> called with no argument (that is, with \<^verbatim>\<open>undefined\<close>) or with
  \<^verbatim>\<open>null\<close> throws a \<^verbatim>\<open>TypeError\<close>, since the parameter pattern cannot destructure them, and
  these are the only arguments for which it throws.
\<close>

theorem withMiddleware_rejects_undefined:
  "withMiddleware JUndefined this h =
     (Inl (TypeError ''Cannot destructure property of undefined or null''), h)
   \<and> withMiddleware JNull this h =
     (Inl (TypeError ''Cannot destructure property of undefined or null''), h)
   \<and> ((\<exists>e. fst (withMiddleware arg this h) = Inl e) = (arg = JUndefined \<or> arg = JNull))"
  by (auto simp: withMiddleware_def destructure_header_body_def Let_def)

text \<open>
  C9. \<^verbatim>\<open>withBearerAuthorization\<close> with a symbol as token: the template literal throws the
  platform's \<^verbatim>\<open>TypeError\<close>, so the interpolation yields no string, and no header is set. The
  same holds for an object whose \<^verbatim>\<open>toString\<close> and \<^verbatim>\<open>valueOf\<close> are not functions.
\<close>

theorem withBearerAuthorization_symbol_counterexample:
  "ToString example_methods (JSymbol 0) =
     Inl (TypeError ''Cannot convert a Symbol value to a string'')
   \<and> withBearerAuthorization example_methods (JSymbol 0) 0 example_heap =
     (Inl (TypeError ''Cannot convert a Symbol value to a string''), example_heap)
   \<and> withBearerAuthorization example_methods
        (JObj [(''toString'', JNum 1), (''valueOf'', JNum 2)]) 0 example_heap =
     (Inl (TypeError ''Cannot convert object to primitive value''), example_heap)"
  by (simp add: withBearerAuthorization_def OrdinaryToPrimitive_def try_method_def)

text \<open>
  C9, as amended. \<^verbatim>\<open>withBearerAuthorization(token)\<close> is \<^verbatim>\<open>withAuthorization\<close> applied to the
  interpolated string \<^verbatim>\<open>`Bearer ${token}`\<close>. For a string token it sets the header
  \<^verbatim>\<open>Authorization\<close> to \<^verbatim>\<open>Bearer\<close>, a space and the token, and returns \<^verbatim>\<open>this\<close>. Whenever the
  interpolation yields a string, the call succeeds in the same way, whatever the type of
  the token. When the interpolation throws, the call throws that error and the store is
  unchanged. In no case is the error an \<^verbatim>\<open>InvalidRequestHeader\<close>.
\<close>

theorem withBearerAuthorization_header:
  "withBearerAuthorization m (JStr t) this h =
     (Inr this, h(this := (h this)\<lparr>priv_headers :=
        (priv_headers (h this))(''Authorization'' \<mapsto> JStr (''Bearer '' @ t))\<rparr>))
   \<and> (\<forall>s. ToString m token = Inr s \<longrightarrow>
         withBearerAuthorization m token this h = withAuthorization m (JStr (''Bearer '' @ s)) this h
         \<and> withBearerAuthorization m token this h =
             (Inr this, h(this := (h this)\<lparr>priv_headers :=
                (priv_headers (h this))(''Authorization'' \<mapsto> JStr (''Bearer '' @ s))\<rparr>)))
   \<and> (\<forall>e. ToString m token = Inl e \<longrightarrow> withBearerAuthorization m token this h = (Inl e, h))
   \<and> (\<forall>k v. fst (withBearerAuthorization m token this h) \<noteq> Inl (InvalidRequestHeader k v))"
proof -
  have a: "\<And>s. withAuthorization m (JStr s) this h =
      (Inr this, h(this := (h this)\<lparr>priv_headers :=
        (priv_headers (h this))(''Authorization'' \<mapsto> JStr s)\<rparr>))"
    by (simp add: withAuthorization_def withHeader_strings)
  have 1: "withBearerAuthorization m (JStr t) this h =
     (Inr this, h(this := (h this)\<lparr>priv_headers :=
        (priv_headers (h this))(''Authorization'' \<mapsto> JStr (''Bearer '' @ t))\<rparr>))"
    by (simp add: withBearerAuthorization_def a)
  have 2: "\<And>s. ToString m token = Inr s \<Longrightarrow>
         withBearerAuthorization m token this h = withAuthorization m (JStr (''Bearer '' @ s)) this h
         \<and> withBearerAuthorization m token this h =
             (Inr this, h(this := (h this)\<lparr>priv_headers :=
                (priv_headers (h this))(''Authorization'' \<mapsto> JStr (''Bearer '' @ s))\<rparr>))"
    by (simp add: withBearerAuthorization_def a)
  have 3: "\<And>e. ToString m token = Inl e \<Longrightarrow> withBearerAuthorization m token this h = (Inl e, h)"
    by (simp add: withBearerAuthorization_def)
  have 4: "\<And>k v. fst (withBearerAuthorization m token this h) \<noteq> Inl (InvalidRequestHeader k v)"
  proof (cases "ToString m token")
    case (Inl e)
    fix k v
    from Inl have "conversion_error e" by (rule ToString_error)
    then have "e \<noteq> InvalidRequestHeader k v" by (auto simp: conversion_error_def)
    with 3 [OF Inl] show "fst (withBearerAuthorization m token this h) \<noteq> Inl (InvalidRequestHeader k v)"
      by simp
  next
    case (Inr s)
    fix k v
    from 2 [OF Inr] have "fst (withBearerAuthorization m token this h) = Inr this"
      by (metis fst_conv)
    then show "fst (withBearerAuthorization m token this h) \<noteq> Inl (InvalidRequestHeader k v)"
      by simp
  qed
  from 1 2 3 4 show ?thesis by blast
qed

text \<open>On the example: the token \<^verbatim>\<open>'xyz'\<close>; the number 42, which \<^verbatim>\<open>withAuthorization\<close> itself
  refuses; an object with its own \<^verbatim>\<open>toString\<close>; a symbol; an object whose \<^verbatim>\<open>toString\<close>
  throws.\<close>

theorem withBearerAuthorization_header_witness:
  "priv_headers (snd (withBearerAuthorization example_methods (JStr ''xyz'') 0 example_heap) 0)
       ''Authorization''
     = Some (JStr ''Bearer xyz'')
   \<and> withBearerAuthorization example_methods (JNum 42) 0 example_heap
     = withAuthorization example_methods (JStr ''Bearer 42'') 0 example_heap
   \<and> fst (withBearerAuthorization example_methods (JNum 42) 0 example_heap) = Inr 0
   \<and> fst (withAuthorization example_methods (JNum 42) 0 example_heap)
     = Inl (InvalidRequestHeader (JStr ''Authorization'') (JNum 42))
   \<and> priv_headers (snd (withBearerAuthorization example_methods
        (JObj [(''toString'', JFun 7 ''f'')]) 0 example_heap) 0) ''Authorization''
     = Some (JStr ''Bearer tok'')
   \<and> withBearerAuthorization example_methods (JSymbol 0) 0 example_heap
     = (Inl (TypeError ''Cannot convert a Symbol value to a string''), example_heap)
   \<and> withBearerAuthorization example_methods (JObj [(''toString'', JFun 8 ''g'')]) 0 example_heap
     = (Inl (Raised (JStr ''boom'')), example_heap)"
proof -
  let ?m = example_methods
  let ?o7 = "JObj [(''toString'', JFun 7 ''f'')]"
  let ?o8 = "JObj [(''toString'', JFun 8 ''g'')]"
  note t = withBearerAuthorization_header [of ?m "''xyz''" 0 example_heap "JNum 42"]
  note u = withBearerAuthorization_header [of ?m "''xyz''" 0 example_heap "JSymbol 0"]
  note o = withBearerAuthorization_header [of ?m "''xyz''" 0 example_heap ?o7]
  note p = withBearerAuthorization_header [of ?m "''xyz''" 0 example_heap ?o8]
  have n: "ToString ?m (JNum 42) = Inr ''42''" by code_simp
  have y: "ToString ?m (JSymbol 0) = Inl (TypeError ''Cannot convert a Symbol value to a string'')"
    by simp
  have c7: "ToString ?m ?o7 = Inr ''tok''"
    by (simp add: OrdinaryToPrimitive_def try_method_def example_methods_def)
  have c8: "ToString ?m ?o8 = Inl (Raised (JStr ''boom''))"
    by (simp add: OrdinaryToPrimitive_def try_method_def example_methods_def)
  have e: "''Bearer '' @ ''42'' = ''Bearer 42''" "''Bearer '' @ ''tok'' = ''Bearer tok''"
    by simp_all
  from t have 1: "priv_headers (snd (withBearerAuthorization ?m (JStr ''xyz'') 0 example_heap) 0)
      ''Authorization'' = Some (JStr ''Bearer xyz'')"
    by simp
  from t n have "withBearerAuthorization ?m (JNum 42) 0 example_heap
      = withAuthorization ?m (JStr (''Bearer '' @ ''42'')) 0 example_heap"
    by blast
  then have 2: "withBearerAuthorization ?m (JNum 42) 0 example_heap
      = withAuthorization ?m (JStr ''Bearer 42'') 0 example_heap"
    unfolding e .
  from t n have "withBearerAuthorization ?m (JNum 42) 0 example_heap =
      (Inr 0, example_heap(0 := (example_heap 0)\<lparr>priv_headers :=
         (priv_headers (example_heap 0))(''Authorization'' \<mapsto> JStr (''Bearer '' @ ''42''))\<rparr>))"
    by blast
  then have 3: "fst (withBearerAuthorization ?m (JNum 42) 0 example_heap) = Inr 0"
    by simp
  have 4: "fst (withAuthorization ?m (JNum 42) 0 example_heap)
     = Inl (InvalidRequestHeader (JStr ''Authorization'') (JNum 42))"
    using n by (simp add: withAuthorization_def withHeader_not_strings new_InvalidRequestHeader_def)
  from o c7 have "withBearerAuthorization ?m ?o7 0 example_heap =
      (Inr 0, example_heap(0 := (example_heap 0)\<lparr>priv_headers :=
         (priv_headers (example_heap 0))(''Authorization'' \<mapsto> JStr (''Bearer '' @ ''tok''))\<rparr>))"
    by blast
  then have 5: "priv_headers (snd (withBearerAuthorization ?m ?o7 0 example_heap) 0)
      ''Authorization'' = Some (JStr ''Bearer tok'')"
    by simp
  from u y have 6: "withBearerAuthorization ?m (JSymbol 0) 0 example_heap
     = (Inl (TypeError ''Cannot convert a Symbol value to a string''), example_heap)"
    by blast
  from p c8 have 7: "withBearerAuthorization ?m ?o8 0 example_heap
     = (Inl (Raised (JStr ''boom'')), example_heap)"
    by blast
  from 1 2 3 4 5 6 7 show ?thesis by blast
qed

section \<open>Parameter assembly\<close>

text \<open>
  C3. The record \<^verbatim>\<open>_parameters(method)\<close> returns carries the method and the header mapping,
  and has the key \<^verbatim>\<open>body\<close> exactly when the stored body is neither \<^verbatim>\<open>undefined\<close> nor
  \<^verbatim>\<open>null\<close> and the header \<^verbatim>\<open>Content-Type\<close> is present with a string value; the payload is
  then \<^verbatim>\<open>JSON.stringify\<close> of the stored body when that string starts with
  \<^verbatim>\<open>application/json\<close>, and the stored body itself otherwise.
\<close>

theorem parameters_body:
  "http_method (parameters m this h) = m
   \<and> headers (parameters m this h) = priv_headers (h this)
   \<and> ((body (parameters m this h) \<noteq> None) =
        (priv_body (h this) \<noteq> JUndefined \<and> priv_body (h this) \<noteq> JNull
         \<and> (\<exists>s. priv_headers (h this) ''Content-Type'' = Some (JStr s))))
   \<and> (\<forall>s. priv_body (h this) \<noteq> JUndefined \<and> priv_body (h this) \<noteq> JNull
           \<and> priv_headers (h this) ''Content-Type'' = Some (JStr s) \<longrightarrow>
         body (parameters m this h) =
           Some (if startsWith s ''application/json''
                 then JSON_stringify (priv_body (h this))
                 else priv_body (h this)))"
  by (auto simp: parameters_def Let_def isUndefinedOrNull_typeOf isString_typeOf
      split: option.splits)

text \<open>The examples: \<^verbatim>\<open>withHeader('Content-Type','application/json')\<close> then \<^verbatim>\<open>withBody({a:1})\<close> gives the
  body \<^verbatim>\<open>{"a":1}\<close>; \<^verbatim>\<open>withBody({a:1})\<close> alone gives no key \<^verbatim>\<open>body\<close>; with \<^verbatim>\<open>text/plain\<close> the
  body passes through.\<close>

theorem parameters_body_witness:
  \<open>body (parameters HTTP_METHOD_POST 0
      (snd (withBody (JObj [(''a'', JNum 1)]) 0
        (snd (withHeader example_methods (JStr ''Content-Type'') (JStr ''application/json'') 0
          example_heap)))))
     = Some (JStr ''{"a":1}'')
   \<and> body (parameters HTTP_METHOD_POST 0
      (snd (withBody (JObj [(''a'', JNum 1)]) 0 example_heap))) = None
   \<and> body (parameters HTTP_METHOD_POST 0
      (snd (withBody (JObj [(''a'', JNum 1)]) 0
        (snd (withContentType example_methods (JStr ''text/plain'') 0 example_heap)))))
     = Some (JObj [(''a'', JNum 1)])\<close>
proof -
  let ?b = "JObj [(''a'', JNum 1)]"
  let ?hA = "snd (withBody ?b 0
        (snd (withHeader example_methods (JStr ''Content-Type'') (JStr ''application/json'') 0
          example_heap)))"
  let ?hB = "snd (withBody ?b 0 example_heap)"
  let ?hC = "snd (withBody ?b 0 (snd (withContentType example_methods (JStr ''text/plain'') 0 example_heap)))"
  have bA: "priv_body (?hA 0) = ?b" and bB: "priv_body (?hB 0) = ?b"
    and bC: "priv_body (?hC 0) = ?b"
    by code_simp+
  have cA: "priv_headers (?hA 0) ''Content-Type'' = Some (JStr ''application/json'')"
    and cB: "priv_headers (?hB 0) ''Content-Type'' = None"
    and cC: "priv_headers (?hC 0) ''Content-Type'' = Some (JStr ''text/plain'')"
    by code_simp+
  have j: \<open>JSON_stringify ?b = JStr ''{"a":1}''\<close> by code_simp
  have sA: "startsWith ''application/json'' ''application/json''"
    and sC: "\<not> startsWith ''text/plain'' ''application/json''"
    by simp_all
  from parameters_body [of HTTP_METHOD_POST 0 ?hA] bA cA j sA
  have A: \<open>body (parameters HTTP_METHOD_POST 0 ?hA) = Some (JStr ''{"a":1}'')\<close>
    by simp
  from parameters_body [of HTTP_METHOD_POST 0 ?hB] bB cB
  have B: "body (parameters HTTP_METHOD_POST 0 ?hB) = None"
    by simp
  from parameters_body [of HTTP_METHOD_POST 0 ?hC] bC cC sC
  have C: "body (parameters HTTP_METHOD_POST 0 ?hC) = Some ?b"
    by simp
  from A B C show ?thesis by blast
qed

section \<open>Dispatch: auxiliary facts\<close>

lemma call_via_withMiddleware:
  "call w base m path this h =
     (let url = (if \<exists>s. path = JStr s then base @ str path else base);
          R = withMiddleware_async w this
                (\<lambda>h'. (fetch w url Parameters_function, [Fetch url Parameters_function], h')) h
      in (Inr (fst R), fst (snd R), snd (snd R)))"
  by (simp add: call_def Let_def isString_typeOf split: prod.splits)

lemma await_events:
  "ev \<in> set (fst (snd (await r k))) \<Longrightarrow>
   ev \<in> set (fst (snd r)) \<or> (\<exists>h. ev \<in> set (fst (snd (k h))))"
proof (cases r)
  case (fields s es h)
  assume a: "ev \<in> set (fst (snd (await r k)))"
  show ?thesis
  proof (cases s)
    case (Fulfilled v)
    with fields a have "ev \<in> set es \<or> ev \<in> set (fst (snd (k h)))"
      by (cases "k h") (auto simp: await_def)
    with fields show ?thesis by auto
  next
    case (Rejected e)
    with fields a show ?thesis by (simp add: await_def)
  next
    case Pending
    with fields a show ?thesis by (simp add: await_def)
  qed
qed

lemma call_header_events:
  "ev \<in> set (fst (snd (call_header w f ctx h))) \<Longrightarrow> \<exists>i m. ev = Header_middleware i m"
  by (cases f) (auto simp: call_header_def split: prod.splits)

lemma call_body_events:
  "ev \<in> set (fst (snd (call_body w f ctx h))) \<Longrightarrow> \<exists>i b. ev = Body_middleware i b"
  by (cases f) (auto simp: call_body_def split: prod.splits)

lemma withMiddleware_async_events:
  assumes "ev \<in> set (fst (snd (withMiddleware_async w ctx cb h)))"
  shows "(\<exists>i m. ev = Header_middleware i m) \<or> (\<exists>i b. ev = Body_middleware i b)
         \<or> (\<exists>h'. ev \<in> set (fst (snd (cb h'))))"
proof -
  from assms [unfolded withMiddleware_async_def]
  consider (hd) "ev \<in> set (fst (snd (if truthy (mw_header (priv_middlewares (h ctx)))
            then call_header w (mw_header (priv_middlewares (h ctx))) ctx h
            else (Fulfilled JUndefined, [], h))))"
    | (rest) h1 where "ev \<in> set (fst (snd (await (if truthy (mw_body (priv_middlewares (h1 ctx)))
                     then call_body w (mw_body (priv_middlewares (h1 ctx))) ctx h1
                     else (Fulfilled JUndefined, [], h1)) (\<lambda>h2. cb h2))))"
    by (blast dest: await_events)
  then show ?thesis
  proof cases
    case hd
    then show ?thesis by (auto dest: call_header_events split: if_splits)
  next
    case rest
    from await_events [OF rest] show ?thesis
      by (auto dest: call_body_events split: if_splits)
  qed
qed

lemma call_never_passes_record:
  "Fetch u (Parameters_record p) \<notin> set (fst (snd (call w base m path this h)))"
proof
  assume "Fetch u (Parameters_record p) \<in> set (fst (snd (call w base m path this h)))"
  then have "Fetch u (Parameters_record p) \<in> set (fst (snd (withMiddleware_async w this
     (\<lambda>h'. (fetch w (if \<exists>s. path = JStr s then base @ str path else base) Parameters_function,
        [Fetch (if \<exists>s. path = JStr s then base @ str path else base) Parameters_function], h')) h)))"
    by (simp add: call_via_withMiddleware Let_def)
  from withMiddleware_async_events [OF this] show False by simp
qed

lemma withContentType_json:
  "withContentType m (JStr ''application/json'') this h =
     (Inr this, h(this := (h this)\<lparr>priv_headers :=
        (priv_headers (h this))(''Content-Type'' \<mapsto> JStr ''application/json'')\<rparr>))"
  by (simp add: withContentType_def withHeader_strings)

text \<open>The example request is what the factory's function returns.\<close>

lemma requestFactory_example:
  "requestFactory (JStr ''https://api.x.com'') (JStr ''v1'') =
     Inr (new_request ''https://api.x.com'' (JStr ''v1''))
   \<and> requestFactory (JNum 1) (JStr ''v1'') = Inl (TypeError ''baseURL must be of type string'')"
  by (simp add: requestFactory_def)

lemmas example_defs = example_heap_def example_request_def new_request_def example_world_def
  example_methods_def

section \<open>Middleware execution\<close>

text \<open>The module's \<^verbatim>\<open>withMiddleware(ctx, cb)\<close>, case by case, for any continuation.\<close>

lemma withMiddleware_async_cases:
  "(let R = withMiddleware_async w ctx cb h;
        hm = mw_header (priv_middlewares (h ctx));
        bm = mw_body (priv_middlewares (h ctx));
        hdrs = priv_headers (h ctx);
        b = priv_body (h ctx);
        h1 = h(ctx := (h ctx)\<lparr>priv_headers := hs\<rparr>);
        h2 = h(ctx := (h ctx)\<lparr>priv_body := in_place b b'\<rparr>);
        h12 = h1(ctx := (h1 ctx)\<lparr>priv_body := in_place b b'\<rparr>)
    in (hm = JNull \<and> bm = JNull \<longrightarrow> R = cb h)
     \<and> (hm = JFun i s \<and> header_fn w i hdrs = (hs, Fulfilled v) \<and> bm = JNull \<longrightarrow>
          R = (fst (cb h1), Header_middleware i hdrs # fst (snd (cb h1)), snd (snd (cb h1))))
     \<and> (hm = JNull \<and> bm = JFun j t \<and> body_fn w j b = (b', Fulfilled v') \<longrightarrow>
          R = (fst (cb h2), Body_middleware j b # fst (snd (cb h2)), snd (snd (cb h2))))
     \<and> (hm = JFun i s \<and> header_fn w i hdrs = (hs, Fulfilled v)
          \<and> bm = JFun j t \<and> body_fn w j b = (b', Fulfilled v') \<longrightarrow>
          R = (fst (cb h12), Header_middleware i hdrs # Body_middleware j b # fst (snd (cb h12)),
               snd (snd (cb h12))))
     \<and> (hm = JFun i s \<and> header_fn w i hdrs = (hs, st) \<and> (\<forall>x. st \<noteq> Fulfilled x) \<longrightarrow>
          R = (st, [Header_middleware i hdrs], h1))
     \<and> (hm = JNull \<and> bm = JFun j t \<and> body_fn w j b = (b', st) \<and> (\<forall>x. st \<noteq> Fulfilled x) \<longrightarrow>
          R = (st, [Body_middleware j b], h2))
     \<and> (hm = JFun i s \<and> header_fn w i hdrs = (hs, Fulfilled v)
          \<and> bm = JFun j t \<and> body_fn w j b = (b', st) \<and> (\<forall>x. st \<noteq> Fulfilled x) \<longrightarrow>
          R = (st, [Header_middleware i hdrs, Body_middleware j b], h12)))"
  unfolding Let_def
  by (cases st)
     (simp_all add: withMiddleware_async_def call_header_def call_body_def await_def
        split: prod.splits)

text \<open>Each dispatcher is \<^verbatim>\<open>_call\<close> on its method, its effective path and the store it
  finds or, for the two JSON dispatchers, leaves after setting the content type.\<close>

lemma js_or_absorb: "js_or (js_or a p) p = js_or a p"
  by (simp add: js_or_def)

lemma dispatchers_call:
  "get w base arg ctx h =
     call w base HTTP_METHOD_GET (if truthy arg then arg else priv_path (h ctx)) ctx h"
  "post w base arg ctx h =
     call w base HTTP_METHOD_POST (if truthy arg then arg else priv_path (h ctx)) ctx h"
  "put w base arg ctx h =
     call w base HTTP_METHOD_PUT (if truthy arg then arg else priv_path (h ctx)) ctx h"
  "delete w base arg ctx h =
     call w base HTTP_METHOD_DELETE (if truthy arg then arg else JUndefined) ctx h"
  "postJSON w base arg ctx h =
     call w base HTTP_METHOD_POST (if truthy arg then arg else priv_path (h ctx)) ctx
       (h(ctx := (h ctx)\<lparr>priv_headers :=
          (priv_headers (h ctx))(''Content-Type'' \<mapsto> JStr ''application/json'')\<rparr>))"
  "putJSON w base arg ctx h =
     call w base HTTP_METHOD_PUT (if truthy arg then arg else priv_path (h ctx)) ctx
       (h(ctx := (h ctx)\<lparr>priv_headers :=
          (priv_headers (h ctx))(''Content-Type'' \<mapsto> JStr ''application/json'')\<rparr>))"
  by (simp_all add: get_def post_def put_def delete_def postJSON_def putJSON_def
      withContentType_json js_or_absorb) (simp_all add: js_or_def)

text \<open>
  C4. A dispatch, case by case. Every dispatcher runs \<^verbatim>\<open>_call\<close>, and \<^verbatim>\<open>_call\<close> does this: a
  registered header middleware is called once, first, with the header mapping of the
  instance; a registered body middleware is called once, after the header middleware has
  completed, with the body of the instance; the transport is called once, last, on the
  store the middlewares leave, and the dispatch returns the transport's promise. While a
  middleware has not completed, nothing after it runs and the returned promise stays
  pending.
\<close>

theorem dispatch_middleware_order:
  "(let url = (case path of JStr p \<Rightarrow> base @ p | _ \<Rightarrow> base);
        F = Fetch url Parameters_function;
        r = fetch w url Parameters_function;
        D = call w base meth path ctx h;
        hm = mw_header (priv_middlewares (h ctx));
        bm = mw_body (priv_middlewares (h ctx));
        hdrs = priv_headers (h ctx);
        b = priv_body (h ctx);
        h1 = h(ctx := (h ctx)\<lparr>priv_headers := hs\<rparr>);
        h2 = h(ctx := (h ctx)\<lparr>priv_body := in_place b b'\<rparr>);
        h12 = h1(ctx := (h1 ctx)\<lparr>priv_body := in_place b b'\<rparr>)
    in (hm = JNull \<and> bm = JNull \<longrightarrow> D = (Inr r, [F], h))
     \<and> (hm = JFun i s \<and> header_fn w i hdrs = (hs, Fulfilled v) \<and> bm = JNull \<longrightarrow>
          D = (Inr r, [Header_middleware i hdrs, F], h1))
     \<and> (hm = JNull \<and> bm = JFun j t \<and> body_fn w j b = (b', Fulfilled v') \<longrightarrow>
          D = (Inr r, [Body_middleware j b, F], h2))
     \<and> (hm = JFun i s \<and> header_fn w i hdrs = (hs, Fulfilled v)
          \<and> bm = JFun j t \<and> body_fn w j b = (b', Fulfilled v') \<longrightarrow>
          D = (Inr r, [Header_middleware i hdrs, Body_middleware j b, F], h12))
     \<and> (hm = JFun i s \<and> header_fn w i hdrs = (hs, Pending) \<longrightarrow>
          D = (Inr Pending, [Header_middleware i hdrs], h1))
     \<and> (hm = JNull \<and> bm = JFun j t \<and> body_fn w j b = (b', Pending) \<longrightarrow>
          D = (Inr Pending, [Body_middleware j b], h2))
     \<and> (hm = JFun i s \<and> header_fn w i hdrs = (hs, Fulfilled v)
          \<and> bm = JFun j t \<and> body_fn w j b = (b', Pending) \<longrightarrow>
          D = (Inr Pending, [Header_middleware i hdrs, Body_middleware j b], h12)))
   \<and> get w base arg ctx h =
       call w base HTTP_METHOD_GET (if truthy arg then arg else priv_path (h ctx)) ctx h
   \<and> post w base arg ctx h =
       call w base HTTP_METHOD_POST (if truthy arg then arg else priv_path (h ctx)) ctx h
   \<and> put w base arg ctx h =
       call w base HTTP_METHOD_PUT (if truthy arg then arg else priv_path (h ctx)) ctx h
   \<and> delete w base arg ctx h =
       call w base HTTP_METHOD_DELETE (if truthy arg then arg else JUndefined) ctx h
   \<and> postJSON w base arg ctx h =
       call w base HTTP_METHOD_POST (if truthy arg then arg else priv_path (h ctx)) ctx
         (h(ctx := (h ctx)\<lparr>priv_headers :=
            (priv_headers (h ctx))(''Content-Type'' \<mapsto> JStr ''application/json'')\<rparr>))
   \<and> putJSON w base arg ctx h =
       call w base HTTP_METHOD_PUT (if truthy arg then arg else priv_path (h ctx)) ctx
         (h(ctx := (h ctx)\<lparr>priv_headers :=
            (priv_headers (h ctx))(''Content-Type'' \<mapsto> JStr ''application/json'')\<rparr>))"
proof -
  let ?url = "case path of JStr p \<Rightarrow> base @ p | _ \<Rightarrow> base"
  let ?cb = "\<lambda>h'. (fetch w ?url Parameters_function, [Fetch ?url Parameters_function], h')"
  have u: "(if \<exists>s. path = JStr s then base @ str path else base) = ?url"
    by (cases path) simp_all
  have c: "call w base meth path ctx h =
      (Inr (fst (withMiddleware_async w ctx ?cb h)),
       fst (snd (withMiddleware_async w ctx ?cb h)),
       snd (snd (withMiddleware_async w ctx ?cb h)))"
    by (simp add: call_via_withMiddleware Let_def u)
  note m = withMiddleware_async_cases [of w ctx ?cb h hs b' i s v j t v' Pending, unfolded Let_def]
  show ?thesis
    unfolding Let_def c dispatchers_call using m by simp
qed

text \<open>On the example, the middlewares registered by \<^verbatim>\<open>withMiddleware\<close>: the seven cases, through
  \<^verbatim>\<open>get()\<close>, \<^verbatim>\<open>post()\<close>, \<^verbatim>\<open>put()\<close>, \<^verbatim>\<open>postJSON()\<close>, \<^verbatim>\<open>delete()\<close> and \<^verbatim>\<open>putJSON()\<close>.\<close>

theorem dispatch_middleware_order_witness:
  "get example_world ''https://api.x.com'' JUndefined 0 example_heap
     = (Inr (Fulfilled (JStr ''response'')),
        [Fetch ''https://api.x.com/users'' Parameters_function], example_heap)
   \<and> fst (snd (post example_world ''https://api.x.com'' JUndefined 0
        (snd (withMiddleware (JObj [(''header'', JFun 1 ''sign'')]) 0 example_heap))))
     = [Header_middleware 1 Map.empty, Fetch ''https://api.x.com/users'' Parameters_function]
   \<and> fst (snd (put example_world ''https://api.x.com'' JUndefined 0
        (snd (withMiddleware (JObj [(''body'', JFun 2 ''log'')]) 0 example_heap))))
     = [Body_middleware 2 JNull, Fetch ''https://api.x.com/users'' Parameters_function]
   \<and> fst (snd (postJSON example_world ''https://api.x.com'' JUndefined 0
        (snd (withMiddleware (JObj [(''header'', JFun 1 ''sign''), (''body'', JFun 2 ''log'')]) 0
           example_heap))))
     = [Header_middleware 1 [''Content-Type'' \<mapsto> JStr ''application/json''],
        Body_middleware 2 JNull,
        Fetch ''https://api.x.com/users'' Parameters_function]
   \<and> fst (snd (delete example_world ''https://api.x.com'' (JStr ''/users/7'') 0
        (snd (withMiddleware (JObj [(''header'', JFun 5 ''wait'')]) 0 example_heap))))
     = [Header_middleware 5 Map.empty]
   \<and> fst (snd (putJSON example_world ''https://api.x.com'' JUndefined 0
        (snd (withMiddleware (JObj [(''body'', JFun 5 ''wait'')]) 0 example_heap))))
     = [Body_middleware 5 JNull]
   \<and> fst (snd (get example_world ''https://api.x.com'' JUndefined 0
        (snd (withMiddleware (JObj [(''header'', JFun 1 ''sign''), (''body'', JFun 5 ''wait'')]) 0
           example_heap))))
     = [Header_middleware 1 Map.empty, Body_middleware 5 JNull]"
proof -
  let ?w = example_world
  let ?base = "''https://api.x.com''"
  let ?p = "JStr ''/users''"
  let ?sig = "[''X-Signature'' \<mapsto> JStr ''abc'']"
  let ?ct = "[''Content-Type'' \<mapsto> JStr ''application/json'']"
  let ?h2 = "snd (withMiddleware (JObj [(''header'', JFun 1 ''sign'')]) 0 example_heap)"
  let ?h3 = "snd (withMiddleware (JObj [(''body'', JFun 2 ''log'')]) 0 example_heap)"
  let ?h4 = "snd (withMiddleware (JObj [(''header'', JFun 1 ''sign''), (''body'', JFun 2 ''log'')]) 0
           example_heap)"
  let ?h5 = "snd (withMiddleware (JObj [(''header'', JFun 5 ''wait'')]) 0 example_heap)"
  let ?h6 = "snd (withMiddleware (JObj [(''body'', JFun 5 ''wait'')]) 0 example_heap)"
  let ?h7 = "snd (withMiddleware (JObj [(''header'', JFun 1 ''sign''), (''body'', JFun 5 ''wait'')]) 0
           example_heap)"
  let ?json = "\<lambda>h. h(0 := (h 0)\<lparr>priv_headers := (priv_headers (h 0))
                  (''Content-Type'' \<mapsto> JStr ''application/json'')\<rparr>)"
  note mw = withMiddleware_def destructure_header_body_def isFunction_typeOf Let_def
  have 1: "get ?w ?base JUndefined 0 example_heap
     = (Inr (Fulfilled (JStr ''response'')),
        [Fetch ''https://api.x.com/users'' Parameters_function], example_heap)"
    using dispatch_middleware_order [where w = ?w and base = ?base and path = ?p
        and arg = JUndefined and ctx = 0 and h = example_heap and meth = HTTP_METHOD_GET]
    by (simp add: Let_def example_defs)
  have 2: "fst (snd (post ?w ?base JUndefined 0 ?h2))
     = [Header_middleware 1 Map.empty, Fetch ''https://api.x.com/users'' Parameters_function]"
    using dispatch_middleware_order [where w = ?w and base = ?base and path = ?p
        and arg = JUndefined and ctx = 0 and h = ?h2 and meth = HTTP_METHOD_POST
        and hs = ?sig and i = 1 and s = "''sign''" and v = JUndefined]
    by (simp add: mw example_defs)
  have 3: "fst (snd (put ?w ?base JUndefined 0 ?h3))
     = [Body_middleware 2 JNull, Fetch ''https://api.x.com/users'' Parameters_function]"
    using dispatch_middleware_order [where w = ?w and base = ?base and path = ?p
        and arg = JUndefined and ctx = 0 and h = ?h3 and meth = HTTP_METHOD_PUT
        and b' = JNull and j = 2 and t = "''log''" and v' = JUndefined]
    by (simp add: mw example_defs)
  have 4: "fst (snd (postJSON ?w ?base JUndefined 0 ?h4))
     = [Header_middleware 1 ?ct, Body_middleware 2 JNull,
        Fetch ''https://api.x.com/users'' Parameters_function]"
    using dispatch_middleware_order [where w = ?w and base = ?base and path = ?p
        and arg = JUndefined and ctx = 0 and h = ?h4 and meth = HTTP_METHOD_POST]
      dispatch_middleware_order [where w = ?w and base = ?base and path = ?p
        and arg = JUndefined and ctx = 0 and h = "?json ?h4" and meth = HTTP_METHOD_POST
        and hs = "?ct(''X-Signature'' \<mapsto> JStr ''abc'')" and i = 1 and s = "''sign''"
        and v = JUndefined and b' = JNull and j = 2 and t = "''log''" and v' = JUndefined]
    by (simp add: mw example_defs)
  have 5: "fst (snd (delete ?w ?base (JStr ''/users/7'') 0 ?h5)) = [Header_middleware 5 Map.empty]"
    using dispatch_middleware_order [where w = ?w and base = ?base and path = "JStr ''/users/7''"
        and arg = "JStr ''/users/7''" and ctx = 0 and h = ?h5 and meth = HTTP_METHOD_DELETE
        and hs = Map.empty and i = 5 and s = "''wait''"]
    by (simp add: mw example_defs)
  have 6: "fst (snd (putJSON ?w ?base JUndefined 0 ?h6)) = [Body_middleware 5 JNull]"
    using dispatch_middleware_order [where w = ?w and base = ?base and path = ?p
        and arg = JUndefined and ctx = 0 and h = ?h6 and meth = HTTP_METHOD_PUT]
      dispatch_middleware_order [where w = ?w and base = ?base and path = ?p
        and arg = JUndefined and ctx = 0 and h = "?json ?h6" and meth = HTTP_METHOD_PUT
        and b' = JNull and j = 5 and t = "''wait''"]
    by (simp add: mw example_defs)
  have 7: "fst (snd (get ?w ?base JUndefined 0 ?h7))
     = [Header_middleware 1 Map.empty, Body_middleware 5 JNull]"
    using dispatch_middleware_order [where w = ?w and base = ?base and path = ?p
        and arg = JUndefined and ctx = 0 and h = ?h7 and meth = HTTP_METHOD_GET
        and hs = ?sig and i = 1 and s = "''sign''" and v = JUndefined
        and b' = JNull and j = 5 and t = "''wait''"]
    by (simp add: mw example_defs)
  from 1 2 3 4 5 6 7 show ?thesis by blast
qed

text \<open>
  C5. A dispatch with a failing middleware. Every dispatcher runs \<^verbatim>\<open>_call\<close>, and when a
  registered middleware fails, \<^verbatim>\<open>_call\<close> returns a promise rejected with that failure; the
  transport is not called, and a body middleware registered behind a failing header
  middleware is not called either.
\<close>

theorem dispatch_middleware_failure:
  "(let D = call w base meth path ctx h;
        hm = mw_header (priv_middlewares (h ctx));
        bm = mw_body (priv_middlewares (h ctx));
        hdrs = priv_headers (h ctx);
        b = priv_body (h ctx);
        h1 = h(ctx := (h ctx)\<lparr>priv_headers := hs\<rparr>);
        h2 = h(ctx := (h ctx)\<lparr>priv_body := in_place b b'\<rparr>);
        h12 = h1(ctx := (h1 ctx)\<lparr>priv_body := in_place b b'\<rparr>)
    in (hm = JFun i s \<and> header_fn w i hdrs = (hs, Rejected e) \<longrightarrow>
          D = (Inr (Rejected e), [Header_middleware i hdrs], h1))
     \<and> (hm = JNull \<and> bm = JFun j t \<and> body_fn w j b = (b', Rejected e) \<longrightarrow>
          D = (Inr (Rejected e), [Body_middleware j b], h2))
     \<and> (hm = JFun i s \<and> header_fn w i hdrs = (hs, Fulfilled v)
          \<and> bm = JFun j t \<and> body_fn w j b = (b', Rejected e) \<longrightarrow>
          D = (Inr (Rejected e), [Header_middleware i hdrs, Body_middleware j b], h12)))
   \<and> get w base arg ctx h =
       call w base HTTP_METHOD_GET (if truthy arg then arg else priv_path (h ctx)) ctx h
   \<and> post w base arg ctx h =
       call w base HTTP_METHOD_POST (if truthy arg then arg else priv_path (h ctx)) ctx h
   \<and> put w base arg ctx h =
       call w base HTTP_METHOD_PUT (if truthy arg then arg else priv_path (h ctx)) ctx h
   \<and> delete w base arg ctx h =
       call w base HTTP_METHOD_DELETE (if truthy arg then arg else JUndefined) ctx h
   \<and> postJSON w base arg ctx h =
       call w base HTTP_METHOD_POST (if truthy arg then arg else priv_path (h ctx)) ctx
         (h(ctx := (h ctx)\<lparr>priv_headers :=
            (priv_headers (h ctx))(''Content-Type'' \<mapsto> JStr ''application/json'')\<rparr>))
   \<and> putJSON w base arg ctx h =
       call w base HTTP_METHOD_PUT (if truthy arg then arg else priv_path (h ctx)) ctx
         (h(ctx := (h ctx)\<lparr>priv_headers :=
            (priv_headers (h ctx))(''Content-Type'' \<mapsto> JStr ''application/json'')\<rparr>))"
proof -
  let ?url = "if \<exists>s. path = JStr s then base @ str path else base"
  let ?cb = "\<lambda>h'. (fetch w ?url Parameters_function, [Fetch ?url Parameters_function], h')"
  have c: "call w base meth path ctx h =
      (Inr (fst (withMiddleware_async w ctx ?cb h)),
       fst (snd (withMiddleware_async w ctx ?cb h)),
       snd (snd (withMiddleware_async w ctx ?cb h)))"
    by (simp add: call_via_withMiddleware Let_def)
  note m = withMiddleware_async_cases [of w ctx ?cb h hs b' i s v j t _ "Rejected e",
      unfolded Let_def]
  show ?thesis
    unfolding Let_def c dispatchers_call using m by simp
qed

text \<open>On the example: the function 3 fails as the header middleware of a \<^verbatim>\<open>post()\<close>, as the
  body middleware of a \<^verbatim>\<open>putJSON()\<close>, and as the body middleware of a \<^verbatim>\<open>delete()\<close> whose
  header middleware completes.\<close>

theorem dispatch_middleware_failure_witness:
  "post example_world ''https://api.x.com'' JUndefined 0
        (snd (withMiddleware (JObj [(''header'', JFun 3 ''deny'')]) 0 example_heap))
     = (Inr (Rejected (Raised (JStr ''denied''))), [Header_middleware 3 Map.empty],
        snd (withMiddleware (JObj [(''header'', JFun 3 ''deny'')]) 0 example_heap))
   \<and> fst (putJSON example_world ''https://api.x.com'' JUndefined 0
        (snd (withMiddleware (JObj [(''body'', JFun 3 ''deny'')]) 0 example_heap)))
     = Inr (Rejected (Raised (JStr ''denied'')))
   \<and> fst (snd (putJSON example_world ''https://api.x.com'' JUndefined 0
        (snd (withMiddleware (JObj [(''body'', JFun 3 ''deny'')]) 0 example_heap))))
     = [Body_middleware 3 JNull]
   \<and> fst (delete example_world ''https://api.x.com'' JUndefined 0
        (snd (withMiddleware (JObj [(''header'', JFun 1 ''sign''), (''body'', JFun 3 ''deny'')]) 0
           example_heap)))
     = Inr (Rejected (Raised (JStr ''denied'')))
   \<and> fst (snd (delete example_world ''https://api.x.com'' JUndefined 0
        (snd (withMiddleware (JObj [(''header'', JFun 1 ''sign''), (''body'', JFun 3 ''deny'')]) 0
           example_heap))))
     = [Header_middleware 1 Map.empty, Body_middleware 3 JNull]"
proof -
  let ?w = example_world
  let ?base = "''https://api.x.com''"
  let ?p = "JStr ''/users''"
  let ?d = "Raised (JStr ''denied'')"
  let ?sig = "[''X-Signature'' \<mapsto> JStr ''abc'']"
  let ?h1 = "snd (withMiddleware (JObj [(''header'', JFun 3 ''deny'')]) 0 example_heap)"
  let ?h2 = "snd (withMiddleware (JObj [(''body'', JFun 3 ''deny'')]) 0 example_heap)"
  let ?h3 = "snd (withMiddleware (JObj [(''header'', JFun 1 ''sign''), (''body'', JFun 3 ''deny'')]) 0
           example_heap)"
  let ?json = "\<lambda>h. h(0 := (h 0)\<lparr>priv_headers := (priv_headers (h 0))
                  (''Content-Type'' \<mapsto> JStr ''application/json'')\<rparr>)"
  note mw = withMiddleware_def destructure_header_body_def isFunction_typeOf Let_def
  have 1: "post ?w ?base JUndefined 0 ?h1
     = (Inr (Rejected ?d), [Header_middleware 3 Map.empty], ?h1)"
    using dispatch_middleware_failure [where w = ?w and base = ?base and path = ?p
        and arg = JUndefined and ctx = 0 and h = ?h1 and meth = HTTP_METHOD_POST
        and hs = Map.empty and i = 3 and s = "''deny''" and e = ?d]
    by (simp add: mw example_defs)
  have 2: "fst (putJSON ?w ?base JUndefined 0 ?h2) = Inr (Rejected ?d)
     \<and> fst (snd (putJSON ?w ?base JUndefined 0 ?h2)) = [Body_middleware 3 JNull]"
    using dispatch_middleware_failure [where w = ?w and base = ?base and path = ?p
        and arg = JUndefined and ctx = 0 and h = ?h2 and meth = HTTP_METHOD_PUT]
      dispatch_middleware_failure [where w = ?w and base = ?base and path = ?p
        and arg = JUndefined and ctx = 0 and h = "?json ?h2" and meth = HTTP_METHOD_PUT
        and b' = JNull and j = 3 and t = "''deny''" and e = ?d]
    by (simp add: mw example_defs)
  have 3: "fst (delete ?w ?base JUndefined 0 ?h3) = Inr (Rejected ?d)
     \<and> fst (snd (delete ?w ?base JUndefined 0 ?h3))
       = [Header_middleware 1 Map.empty, Body_middleware 3 JNull]"
    using dispatch_middleware_failure [where w = ?w and base = ?base and path = JUndefined
        and arg = JUndefined and ctx = 0 and h = ?h3 and meth = HTTP_METHOD_DELETE
        and hs = ?sig and i = 1 and s = "''sign''" and v = JUndefined
        and b' = JNull and j = 3 and t = "''deny''" and e = ?d]
    by (simp add: mw example_defs)
  from 1 2 3 show ?thesis by blast
qed

section \<open>Dispatch\<close>

text \<open>
  C1. What the transport receives. \<^verbatim>\<open>get()\<close> on the example request, no middleware
  registered, calls the transport once with the URL and, as second argument, the function
  \<^verbatim>\<open>_parameters\<close> itself, which is not the record \<^verbatim>\<open>_parameters('GET')\<close> assembles; and none
  of the six dispatchers ever passes a parameter record to the transport.
\<close>

theorem call_passes_parameters_function:
  "get w ''https://api.x.com'' JUndefined 0 example_heap =
     (Inr (fetch w ''https://api.x.com/users'' Parameters_function),
      [Fetch ''https://api.x.com/users'' Parameters_function], example_heap)
   \<and> Parameters_function \<noteq> Parameters_record (parameters HTTP_METHOD_GET 0 example_heap)
   \<and> Fetch u (Parameters_record p) \<notin> set (fst (snd (get w base path this h)))
   \<and> Fetch u (Parameters_record p) \<notin> set (fst (snd (post w base path this h)))
   \<and> Fetch u (Parameters_record p) \<notin> set (fst (snd (put w base path this h)))
   \<and> Fetch u (Parameters_record p) \<notin> set (fst (snd (delete w base path this h)))
   \<and> Fetch u (Parameters_record p) \<notin> set (fst (snd (postJSON w base path this h)))
   \<and> Fetch u (Parameters_record p) \<notin> set (fst (snd (putJSON w base path this h)))"
proof -
  have "get w ''https://api.x.com'' JUndefined 0 example_heap =
     (Inr (fetch w ''https://api.x.com/users'' Parameters_function),
      [Fetch ''https://api.x.com/users'' Parameters_function], example_heap)"
    by (simp add: get_def call_via_withMiddleware js_or_def Let_def example_defs
        withMiddleware_async_def await_def)
  moreover have "Fetch u (Parameters_record p) \<notin> set (fst (snd (postJSON w base path this h)))"
    by (simp add: postJSON_def post_def withContentType_json call_never_passes_record)
  moreover have "Fetch u (Parameters_record p) \<notin> set (fst (snd (putJSON w base path this h)))"
    by (simp add: putJSON_def put_def withContentType_json call_never_passes_record)
  ultimately show ?thesis
    by (simp add: get_def post_def put_def delete_def call_never_passes_record)
qed

text \<open>
  C2. The URL of a dispatch with no explicit path, on the example request. \<^verbatim>\<open>get()\<close>,
  \<^verbatim>\<open>post()\<close>, \<^verbatim>\<open>put()\<close>, \<^verbatim>\<open>postJSON()\<close> and \<^verbatim>\<open>putJSON()\<close> call the transport with the base URL
  followed by the stored path; \<^verbatim>\<open>delete()\<close> reads \<^verbatim>\<open>this._path\<close>, which the object does not
  have, and calls the transport with the base URL alone.
\<close>

theorem delete_ignores_stored_path:
  "fst (snd (delete w ''https://api.x.com'' JUndefined 0 example_heap)) =
     [Fetch ''https://api.x.com'' Parameters_function]
   \<and> fst (snd (get w ''https://api.x.com'' JUndefined 0 example_heap)) =
     [Fetch ''https://api.x.com/users'' Parameters_function]
   \<and> fst (snd (post w ''https://api.x.com'' JUndefined 0 example_heap)) =
     [Fetch ''https://api.x.com/users'' Parameters_function]
   \<and> fst (snd (put w ''https://api.x.com'' JUndefined 0 example_heap)) =
     [Fetch ''https://api.x.com/users'' Parameters_function]
   \<and> fst (snd (postJSON w ''https://api.x.com'' JUndefined 0 example_heap)) =
     [Fetch ''https://api.x.com/users'' Parameters_function]
   \<and> fst (snd (putJSON w ''https://api.x.com'' JUndefined 0 example_heap)) =
     [Fetch ''https://api.x.com/users'' Parameters_function]"
  by (simp add: get_def post_def put_def delete_def postJSON_def putJSON_def
      withContentType_json call_via_withMiddleware js_or_def Let_def example_defs
      withMiddleware_async_def await_def)

end
